theory Spec2Isabelle
  imports Main
begin

section \<open>JavaScript values and objects\<close>

text \<open>
  The values a parsed JSON body and the route parameters hold. Numbers are the integers
  (an amount with a fraction travels as a string such as \<open>''12.50''\<close>); nested arrays and
  objects are left out. \<open>JUndefined\<close> is what reading an absent property gives.
\<close>

datatype jsval = JUndefined | JNull | JBool bool | JNum int | JStr string

text \<open>
  An object is the list of its own properties in the order \<open>for (const key in obj)\<close>
  enumerates them; the keys of an object are distinct.
\<close>

type_synonym obj = "(string \<times> jsval) list"

definition get_prop :: "obj \<Rightarrow> string \<Rightarrow> jsval" where
  "get_prop ob k = (case map_of ob k of None \<Rightarrow> JUndefined | Some v \<Rightarrow> v)"

text \<open>Assignment \<open>ob[k] = v\<close>: an existing key keeps its place, a new key goes last.\<close>

fun set_prop :: "obj \<Rightarrow> string \<Rightarrow> jsval \<Rightarrow> obj" where
  "set_prop [] k v = [(k, v)]"
| "set_prop ((k', v') # rest) k v =
     (if k' = k then (k, v) # rest else (k', v') # set_prop rest k v)"

text \<open>\<open>Array.prototype.join\<close>.\<close>

fun join :: "string \<Rightarrow> string list \<Rightarrow> string" where
  "join sep [] = []"
| "join sep [x] = x"
| "join sep (x # y # rest) = x @ sep @ join sep (y # rest)"

subsection \<open>Numbers as text\<close>

definition digit_char :: "nat \<Rightarrow> char" where
  "digit_char d = (''0123456789'' ! d)"

text \<open>The decimal digits of a natural number, given as an integer.\<close>

function digits_of :: "int \<Rightarrow> string" where
  "digits_of i =
     (if i < 10 then [digit_char (nat i)]
      else digits_of (i div 10) @ [digit_char (nat (i mod 10))])"
  by pat_completeness auto
termination
  by (relation "measure nat") auto

declare digits_of.simps [simp del]

text \<open>
  \<open>String(n)\<close> for a number whose decimal literal is the integer \<open>n\<close>: the decimal digits
  below \<open>10^21\<close>, and from there on exponent notation, the significant digits with a point
  after the first and \<open>e+\<close> with the decimal exponent. The digits are those of the literal,
  which are the digits JavaScript prints for a safe integer, and beyond the safe integers
  for a literal of at most 15 significant digits.
\<close>

definition strip_zeros :: "string \<Rightarrow> string" where
  "strip_zeros ds = rev (dropWhile (\<lambda>c. c = CHR ''0'') (rev ds))"

definition digits_to_string :: "string \<Rightarrow> string" where
  "digits_to_string ds =
     (if length ds \<le> 21 then ds
      else (case strip_zeros ds of
              [] \<Rightarrow> ds
            | c # cs \<Rightarrow>
                (if cs = [] then [c] else c # CHR ''.'' # cs) @ ''e+'' @
                digits_of (int (length ds) - 1)))"

definition number_to_string :: "int \<Rightarrow> string" where
  "number_to_string i =
     (if i < 0 then CHR ''-'' # digits_to_string (digits_of (- i))
      else digits_to_string (digits_of i))"

definition is_digit :: "char \<Rightarrow> bool" where
  "is_digit c = (c \<in> set ''0123456789'')"

definition digit_value :: "char \<Rightarrow> nat" where
  "digit_value c = length (takeWhile (\<lambda>d. d \<noteq> c) ''0123456789'')"

definition nat_of_digits :: "string \<Rightarrow> nat" where
  "nat_of_digits ds = foldl (\<lambda>acc c. 10 * acc + digit_value c) 0 ds"

definition drop_sign :: "string \<Rightarrow> string" where
  "drop_sign s =
     (case s of [] \<Rightarrow> []
      | c # cs \<Rightarrow> if c = CHR ''-'' \<or> c = CHR ''+'' then cs else c # cs)"

section \<open>The validation library\<close>

text \<open>
  The route handlers of \<open>server.js\<close> call express-validator, which is not part of the
  repository. The string validators and sanitizers it takes from validator.js, and the text
  the JavaScript runtime prints for a number, are a parameter of the model: every handler
  takes a \<open>validator_lib\<close>, and a theorem stated for an arbitrary library holds whatever
  those functions decide.
\<close>

record validator_lib =
  isFloat_min0 :: "string \<Rightarrow> bool"  \<comment> \<open>\<open>isFloat(str, {min: 0})\<close>\<close>
  isDate :: "string \<Rightarrow> bool"
  isEmpty :: "string \<Rightarrow> bool"
  isInt :: "string \<Rightarrow> bool"
  isDecimal :: "string \<Rightarrow> bool"
  isISO8601 :: "string \<Rightarrow> bool"
  isLength_min1 :: "string \<Rightarrow> bool"  \<comment> \<open>\<open>isLength(str, {min: 1})\<close>\<close>
  trim :: "string \<Rightarrow> string"
  escape :: "string \<Rightarrow> string"
  number_text :: "int \<Rightarrow> string"  \<comment> \<open>\<open>String(n)\<close>\<close>

subsection \<open>The chain runner of express-validator\<close>

text \<open>
  Modelled from the spec: express-validator is not under src/. A chain \<open>body(f)\<close> or
  \<open>param(f)\<close> names one field of one location and carries validators and sanitizers in the
  order they were chained. Validation runs every chain to completion and collects every
  violation; a standard validator or sanitizer sees the value as text (\<open>toString\<close>), a
  violation is recorded with the message given by \<open>withMessage\<close> (\<open>Invalid value\<close> without
  one), a sanitizer writes its result back into the request when it differs, and
  \<open>optional()\<close> skips the chain for a field that is \<open>undefined\<close>.
\<close>

fun toString :: "validator_lib \<Rightarrow> jsval \<Rightarrow> string" where
  "toString L JUndefined = []"
| "toString L JNull = []"
| "toString L (JBool b) = (if b then ''true'' else ''false'')"
| "toString L (JNum i) = number_text L i"
| "toString L (JStr s) = s"

datatype location = Body | Params

record request =
  params :: obj
  body :: obj

record verror =
  location :: location
  field :: string
  msg :: string
  val :: jsval

datatype item = Check "jsval \<Rightarrow> bool" string | Sanitize "jsval \<Rightarrow> jsval"

record chain =
  chain_location :: location
  chain_field :: string
  optional :: bool
  items :: "item list"

definition get_field :: "request \<Rightarrow> location \<Rightarrow> string \<Rightarrow> jsval" where
  "get_field req l f = (case l of Body \<Rightarrow> get_prop (body req) f | Params \<Rightarrow> get_prop (params req) f)"

definition set_field :: "request \<Rightarrow> location \<Rightarrow> string \<Rightarrow> jsval \<Rightarrow> request" where
  "set_field req l f v =
     (case l of Body \<Rightarrow> req\<lparr>body := set_prop (body req) f v\<rparr>
      | Params \<Rightarrow> req\<lparr>params := set_prop (params req) f v\<rparr>)"

text \<open>After an item ran, the runner writes the field back into the request when its value
  is no longer the one the request holds.\<close>

definition write_back :: "request \<Rightarrow> location \<Rightarrow> string \<Rightarrow> jsval \<Rightarrow> request" where
  "write_back req l f v = (if get_field req l f = v then req else set_field req l f v)"

definition run_item :: "chain \<Rightarrow> request \<times> verror list \<Rightarrow> item \<Rightarrow> request \<times> verror list" where
  "run_item c st it =
     (let req = fst st; errs = snd st;
          v = get_field req (chain_location c) (chain_field c)
      in if optional c \<and> v = JUndefined then (req, errs)
         else (case it of
                 Check p m \<Rightarrow>
                   if p v then (req, errs)
                   else (req, errs @ [\<lparr>location = chain_location c, field = chain_field c,
                                       msg = m, val = v\<rparr>])
               | Sanitize g \<Rightarrow>
                   (write_back req (chain_location c) (chain_field c) (g v), errs)))"

definition run_chain :: "request \<times> verror list \<Rightarrow> chain \<Rightarrow> request \<times> verror list" where
  "run_chain st c = foldl (run_item c) st (items c)"

text \<open>The chains of a route run in order as middleware; \<open>validationResult(req)\<close> then reads
  the collected list.\<close>

definition validate :: "chain list \<Rightarrow> request \<Rightarrow> request \<times> verror list" where
  "validate cs req = foldl run_chain (req, []) cs"

definition invalid_value :: string where
  "invalid_value = ''Invalid value''"

definition body_chain :: "string \<Rightarrow> bool \<Rightarrow> item list \<Rightarrow> chain" where
  "body_chain f opt its = \<lparr>chain_location = Body, chain_field = f, optional = opt, items = its\<rparr>"

definition param_chain :: "string \<Rightarrow> item list \<Rightarrow> chain" where
  "param_chain f its = \<lparr>chain_location = Params, chain_field = f, optional = False, items = its\<rparr>"

text \<open>A standard validator tests the text of the value; \<open>notEmpty()\<close> is \<open>not().isEmpty()\<close>;
  \<open>isString()\<close> tests the value itself; a standard sanitizer returns text.\<close>

definition standard :: "validator_lib \<Rightarrow> (string \<Rightarrow> bool) \<Rightarrow> jsval \<Rightarrow> bool" where
  "standard L p v = p (toString L v)"

definition notEmpty :: "validator_lib \<Rightarrow> jsval \<Rightarrow> bool" where
  "notEmpty L v = (\<not> isEmpty L (toString L v))"

definition isString :: "jsval \<Rightarrow> bool" where
  "isString v = (case v of JStr s \<Rightarrow> True | _ \<Rightarrow> False)"

definition sanitizer :: "validator_lib \<Rightarrow> (string \<Rightarrow> string) \<Rightarrow> jsval \<Rightarrow> jsval" where
  "sanitizer L g v = JStr (g (toString L v))"

section \<open>The validators of the four order routes\<close>

definition post_validators :: "validator_lib \<Rightarrow> chain list" where
  "post_validators L =
     [body_chain ''ORD_AMOUNT'' False
        [Check (standard L (isFloat_min0 L)) ''ORD_AMOUNT must be a positive number''],
      body_chain ''ADVANCE_AMOUNT'' False
        [Check (standard L (isFloat_min0 L)) ''ADVANCE_AMOUNT must be a positive number''],
      body_chain ''ORD_DATE'' False
        [Check (standard L (isDate L)) ''ORD_DATE must be a valid date''],
      body_chain ''CUST_CODE'' False
        [Check (notEmpty L) ''CUST_CODE is required'', Sanitize (sanitizer L (trim L))],
      body_chain ''AGENT_CODE'' False
        [Check (notEmpty L) ''AGENT_CODE is required'', Sanitize (sanitizer L (trim L))],
      body_chain ''ORD_DESCRIPTION'' False
        [Check (notEmpty L) ''ORD_DESCRIPTION is required'', Sanitize (sanitizer L (trim L))]]"

definition put_validators :: "validator_lib \<Rightarrow> chain list" where
  "put_validators L =
     [param_chain ''ORD_NUM'' [Check (standard L (isInt L)) invalid_value],
      body_chain ''ORD_AMOUNT'' False [Check (standard L (isDecimal L)) invalid_value],
      body_chain ''ADVANCE_AMOUNT'' False [Check (standard L (isDecimal L)) invalid_value],
      body_chain ''ORD_DATE'' False [Check (standard L (isISO8601 L)) invalid_value],
      body_chain ''CUST_CODE'' False
        [Check isString invalid_value, Sanitize (sanitizer L (trim L)),
         Sanitize (sanitizer L (escape L))],
      body_chain ''AGENT_CODE'' False
        [Check isString invalid_value, Sanitize (sanitizer L (trim L)),
         Sanitize (sanitizer L (escape L))],
      body_chain ''ORD_DESCRIPTION'' False
        [Check isString invalid_value, Sanitize (sanitizer L (trim L)),
         Sanitize (sanitizer L (escape L))]]"

definition patch_validators :: "validator_lib \<Rightarrow> chain list" where
  "patch_validators L =
     [param_chain ''ORD_NUM'' [Check (standard L (isInt L)) ''ORD_NUM must be an integer''],
      body_chain ''ORD_AMOUNT'' True [Check (standard L (isFloat_min0 L)) invalid_value],
      body_chain ''ADVANCE_AMOUNT'' True [Check (standard L (isFloat_min0 L)) invalid_value],
      body_chain ''ORD_DATE'' True [Check (standard L (isDate L)) invalid_value],
      body_chain ''CUST_CODE'' True [Check (standard L (isLength_min1 L)) invalid_value],
      body_chain ''AGENT_CODE'' True [Check (standard L (isLength_min1 L)) invalid_value],
      body_chain ''ORD_DESCRIPTION'' True [Sanitize (sanitizer L (trim L))]]"

definition delete_validators :: "validator_lib \<Rightarrow> chain list" where
  "delete_validators L =
     [param_chain ''ORD_NUM'' [Check (standard L (isInt L)) invalid_value]]"

section \<open>The relational store\<close>

text \<open>
  Modelled from the spec: the database is an external collaborator, reached through a
  pooled connection. The model keeps the \<open>orders\<close> table as a list of rows with an integer
  key \<open>ORD_NUM\<close>, and a flag telling whether the pool hands out a connection. A failed
  call is \<open>Inl\<close> of the driver's message. A write reports \<open>affectedRows\<close>, the number of
  rows its \<open>WHERE\<close> clause matched. The statements of the routes are read by the model,
  but for the text of a partial update whose \<open>SET\<close> clause is more than assignments to
  the columns of \<open>orders\<close>: what the store does with such a text, given its bound values
  and the rows, is the store's own \<open>other_sql\<close>, on which the model puts no condition.
\<close>

record order =
  ORD_NUM :: int
  ORD_AMOUNT :: jsval
  ADVANCE_AMOUNT :: jsval
  ORD_DATE :: jsval
  CUST_CODE :: jsval
  AGENT_CODE :: jsval
  ORD_DESCRIPTION :: jsval

record db =
  orders :: "order list"
  reachable :: bool
  other_sql :: "string \<Rightarrow> jsval list \<Rightarrow> order list \<Rightarrow> string + (nat \<times> order list)"

definition getConnection :: "db \<Rightarrow> string + unit" where
  "getConnection d = (if reachable d then Inr () else Inl ''connect ECONNREFUSED'')"

text \<open>\<open>SELECT MAX(ORD_NUM) AS maxNum FROM orders\<close>: SQL \<open>NULL\<close> (here \<open>None\<close>) on an empty
  table.\<close>

fun max_ord_num :: "order list \<Rightarrow> int option" where
  "max_ord_num [] = None"
| "max_ord_num (r # rs) =
     (case max_ord_num rs of None \<Rightarrow> Some (ORD_NUM r) | Some m \<Rightarrow> Some (max (ORD_NUM r) m))"

definition select_max :: "db \<Rightarrow> string + int option" where
  "select_max d = Inr (max_ord_num (orders d))"

text \<open>How the store reads a bound parameter that is compared with, or stored in, the integer
  key: a number as it is, a string when it is an integer literal; anything else is refused
  (strict SQL mode).\<close>

definition int_of_string :: "string \<Rightarrow> int option" where
  "int_of_string s =
     (let ds = drop_sign s
      in if ds \<noteq> [] \<and> list_all is_digit ds
         then Some (if take 1 s = ''-'' then - int (nat_of_digits ds) else int (nat_of_digits ds))
         else None)"

definition sql_int :: "jsval \<Rightarrow> int option" where
  "sql_int v = (case v of JNum n \<Rightarrow> Some n | JStr s \<Rightarrow> int_of_string s | _ \<Rightarrow> None)"

definition truncated_value :: string where
  "truncated_value = ''Truncated incorrect DECIMAL value''"

definition duplicate_entry :: string where
  "duplicate_entry = ''Duplicate entry for key PRIMARY''"

definition insert_order :: "order \<Rightarrow> db \<Rightarrow> string + db" where
  "insert_order r d =
     (if ORD_NUM r \<in> set (map ORD_NUM (orders d)) then Inl duplicate_entry
      else Inr (d\<lparr>orders := orders d @ [r]\<rparr>))"

definition update_order ::
    "jsval \<Rightarrow> jsval \<Rightarrow> jsval \<Rightarrow> jsval \<Rightarrow> jsval \<Rightarrow> jsval \<Rightarrow> jsval \<Rightarrow> db \<Rightarrow> string + (nat \<times> db)" where
  "update_order a b c e f g k d =
     (case sql_int k of
        None \<Rightarrow> Inl truncated_value
      | Some n \<Rightarrow>
          Inr (length (filter (\<lambda>r. ORD_NUM r = n) (orders d)),
               d\<lparr>orders :=
                   map (\<lambda>r. if ORD_NUM r = n
                             then r\<lparr>ORD_AMOUNT := a, ADVANCE_AMOUNT := b, ORD_DATE := c,
                                    CUST_CODE := e, AGENT_CODE := f, ORD_DESCRIPTION := g\<rparr>
                             else r) (orders d)\<rparr>))"

text \<open>The statement of the partial update has one \<open>SET\<close> fragment per key of the body. The
  store refuses an empty \<open>SET\<close> clause as a syntax error, runs the fragments that assign a
  column of \<open>orders\<close>, and hands a statement with any other fragment to \<open>other_sql\<close>.\<close>

definition set_column :: "string \<Rightarrow> jsval \<Rightarrow> order \<Rightarrow> order option" where
  "set_column frag v r =
     (if frag = ''ORD_NUM=?'' then map_option (\<lambda>n. r\<lparr>ORD_NUM := n\<rparr>) (sql_int v)
      else if frag = ''ORD_AMOUNT=?'' then Some (r\<lparr>ORD_AMOUNT := v\<rparr>)
      else if frag = ''ADVANCE_AMOUNT=?'' then Some (r\<lparr>ADVANCE_AMOUNT := v\<rparr>)
      else if frag = ''ORD_DATE=?'' then Some (r\<lparr>ORD_DATE := v\<rparr>)
      else if frag = ''CUST_CODE=?'' then Some (r\<lparr>CUST_CODE := v\<rparr>)
      else if frag = ''AGENT_CODE=?'' then Some (r\<lparr>AGENT_CODE := v\<rparr>)
      else if frag = ''ORD_DESCRIPTION=?'' then Some (r\<lparr>ORD_DESCRIPTION := v\<rparr>)
      else None)"

fun set_columns :: "(string \<times> jsval) list \<Rightarrow> order \<Rightarrow> order option" where
  "set_columns [] r = Some r"
| "set_columns ((frag, v) # rest) r =
     (case set_column frag v r of None \<Rightarrow> None | Some r' \<Rightarrow> set_columns rest r')"

fun update_rows :: "(string \<times> jsval) list \<Rightarrow> int \<Rightarrow> order list \<Rightarrow> (order list) option" where
  "update_rows asg n [] = Some []"
| "update_rows asg n (r # rs) =
     (case (if ORD_NUM r = n then set_columns asg r else Some r) of
        None \<Rightarrow> None
      | Some r' \<Rightarrow> map_option (\<lambda>rs'. r' # rs') (update_rows asg n rs))"

definition order_fragments :: "string list" where
  "order_fragments =
     [''ORD_NUM=?'', ''ORD_AMOUNT=?'', ''ADVANCE_AMOUNT=?'', ''ORD_DATE=?'', ''CUST_CODE=?'',
      ''AGENT_CODE=?'', ''ORD_DESCRIPTION=?'']"

definition update_dynamic ::
    "string \<Rightarrow> string list \<Rightarrow> jsval list \<Rightarrow> db \<Rightarrow> string + (nat \<times> db)" where
  "update_dynamic sql updates vals d =
     (if updates = [] \<or> length vals \<noteq> Suc (length updates)
      then Inl ''You have an error in your SQL syntax''
      else if list_ex (\<lambda>frag. frag \<notin> set order_fragments) updates
      then (case other_sql d sql vals (orders d) of
              Inl err \<Rightarrow> Inl err
            | Inr res \<Rightarrow> Inr (fst res, d\<lparr>orders := snd res\<rparr>))
      else (case sql_int (last vals) of
              None \<Rightarrow> Inl truncated_value
            | Some n \<Rightarrow>
                (case update_rows (zip updates (butlast vals)) n (orders d) of
                   None \<Rightarrow> Inl truncated_value
                 | Some rows \<Rightarrow>
                     if distinct (map ORD_NUM rows)
                     then Inr (length (filter (\<lambda>r. ORD_NUM r = n) (orders d)), d\<lparr>orders := rows\<rparr>)
                     else Inl duplicate_entry)))"

definition delete_order :: "jsval \<Rightarrow> db \<Rightarrow> string + (nat \<times> db)" where
  "delete_order k d =
     (case sql_int k of
        None \<Rightarrow> Inl truncated_value
      | Some n \<Rightarrow>
          Inr (length (filter (\<lambda>r. ORD_NUM r = n) (orders d)),
               d\<lparr>orders := filter (\<lambda>r. ORD_NUM r \<noteq> n) (orders d)\<rparr>))"

section \<open>The order routes\<close>

datatype resp_body =
    Errors "verror list"      \<comment> \<open>\<open>{errors: [...]}\<close>\<close>
  | ErrorMsg string           \<comment> \<open>\<open>{error: err.message}\<close>\<close>
  | Message string            \<comment> \<open>\<open>{message}\<close>\<close>
  | MessageOrd string jsval   \<comment> \<open>\<open>{message, ORD_NUM}\<close>\<close>

record response =
  status :: nat
  json :: resp_body

text \<open>What a handler leaves behind: the response, the store, and the statements it sent over
  the connection, each with its bound values.\<close>

record outcome =
  reply :: response
  store :: db
  issued :: "(string \<times> jsval list) list"

definition respond :: "nat \<Rightarrow> resp_body \<Rightarrow> db \<Rightarrow> (string \<times> jsval list) list \<Rightarrow> outcome" where
  "respond st b d qs = \<lparr>reply = \<lparr>status = st, json = b\<rparr>, store = d, issued = qs\<rparr>"

subsection \<open>POST /orders\<close>

text \<open>\<open>(result[0].maxNum || 0)\<close>: \<open>null\<close> and the number 0 are both falsy.\<close>

definition js_or_zero :: "int option \<Rightarrow> int" where
  "js_or_zero m = (case m of None \<Rightarrow> 0 | Some n \<Rightarrow> if n \<noteq> 0 then n else 0)"

definition select_max_sql :: string where
  "select_max_sql = ''SELECT MAX(ORD_NUM) AS maxNum FROM orders''"

definition insert_sql :: string where
  "insert_sql = ''INSERT INTO orders (ORD_NUM, ORD_AMOUNT, ADVANCE_AMOUNT, ORD_DATE, CUST_CODE, AGENT_CODE, ORD_DESCRIPTION) VALUES (?, ?, ?, ?, ?, ?, ?)''"

definition post_orders :: "validator_lib \<Rightarrow> db \<Rightarrow> obj \<Rightarrow> outcome" where
  "post_orders L d b =
     (let vr = validate (post_validators L) \<lparr>params = [], body = b\<rparr>;
          req = fst vr; errors = snd vr
      in if errors \<noteq> [] then respond 400 (Errors errors) d []
         else (case getConnection d of
                 Inl err \<Rightarrow> respond 500 (ErrorMsg err) d []
               | Inr conn \<Rightarrow>
                   (case select_max d of
                      Inl err \<Rightarrow> respond 500 (ErrorMsg err) d [(select_max_sql, [])]
                    | Inr maxNum \<Rightarrow>
                        (let newOrderNum = js_or_zero maxNum + 1;
                             row = \<lparr>ORD_NUM = newOrderNum,
                                    ORD_AMOUNT = get_prop (body req) ''ORD_AMOUNT'',
                                    ADVANCE_AMOUNT = get_prop (body req) ''ADVANCE_AMOUNT'',
                                    ORD_DATE = get_prop (body req) ''ORD_DATE'',
                                    CUST_CODE = get_prop (body req) ''CUST_CODE'',
                                    AGENT_CODE = get_prop (body req) ''AGENT_CODE'',
                                    ORD_DESCRIPTION = get_prop (body req) ''ORD_DESCRIPTION''\<rparr>;
                             qs = [(select_max_sql, []),
                                   (insert_sql,
                                    [JNum newOrderNum, ORD_AMOUNT row, ADVANCE_AMOUNT row,
                                     ORD_DATE row, CUST_CODE row, AGENT_CODE row,
                                     ORD_DESCRIPTION row])]
                         in case insert_order row d of
                              Inl err \<Rightarrow> respond 500 (ErrorMsg err) d qs
                            | Inr d' \<Rightarrow>
                                respond 201
                                  (MessageOrd ''Order created successfully'' (JNum newOrderNum))
                                  d' qs))))"

subsection \<open>PUT /orders/:ORD_NUM\<close>

text \<open>The router binds the path segment to \<open>req.params.ORD_NUM\<close> as a string.\<close>

definition keyed_request :: "string \<Rightarrow> obj \<Rightarrow> request" where
  "keyed_request ord b = \<lparr>params = [(''ORD_NUM'', JStr ord)], body = b\<rparr>"

definition update_sql :: string where
  "update_sql = ''UPDATE orders SET ORD_AMOUNT=?, ADVANCE_AMOUNT=?, ORD_DATE=?, CUST_CODE=?, AGENT_CODE=?, ORD_DESCRIPTION=? WHERE ORD_NUM=?''"

definition put_orders :: "validator_lib \<Rightarrow> db \<Rightarrow> string \<Rightarrow> obj \<Rightarrow> outcome" where
  "put_orders L d ord b =
     (let vr = validate (put_validators L) (keyed_request ord b);
          req = fst vr; errors = snd vr
      in if errors \<noteq> [] then respond 400 (Errors errors) d []
         else (let ord_num = get_prop (params req) ''ORD_NUM'';
                   ord_amount = get_prop (body req) ''ORD_AMOUNT'';
                   advance_amount = get_prop (body req) ''ADVANCE_AMOUNT'';
                   ord_date = get_prop (body req) ''ORD_DATE'';
                   cust_code = get_prop (body req) ''CUST_CODE'';
                   agent_code = get_prop (body req) ''AGENT_CODE'';
                   ord_description = get_prop (body req) ''ORD_DESCRIPTION'';
                   qs = [(update_sql,
                          [ord_amount, advance_amount, ord_date, cust_code, agent_code,
                           ord_description, ord_num])]
               in case getConnection d of
                    Inl err \<Rightarrow> respond 500 (ErrorMsg err) d []
                  | Inr conn \<Rightarrow>
                      (case update_order ord_amount advance_amount ord_date cust_code agent_code
                              ord_description ord_num d of
                         Inl err \<Rightarrow> respond 500 (ErrorMsg err) d qs
                       | Inr res \<Rightarrow>
                           if fst res = 0
                           then respond 404 (Message ''Order not found'') (snd res) qs
                           else respond 200 (MessageOrd ''Order updated'' ord_num) (snd res) qs)))"

subsection \<open>PATCH /orders/:ORD_NUM\<close>

text \<open>The loop \<open>for (const key in req.body)\<close> with its two accumulators.\<close>

fun patch_loop :: "obj \<Rightarrow> string list \<Rightarrow> string list \<Rightarrow> jsval list \<Rightarrow> string list \<times> jsval list" where
  "patch_loop b [] updates vals = (updates, vals)"
| "patch_loop b (key # keys) updates vals =
     patch_loop b keys (updates @ [key @ ''=?'']) (vals @ [get_prop b key])"

definition patch_build :: "request \<Rightarrow> string list \<times> jsval list" where
  "patch_build req =
     (let uv = patch_loop (body req) (map fst (body req)) [] []
      in (fst uv, snd uv @ [get_prop (params req) ''ORD_NUM'']))"

definition patch_sql :: "string list \<Rightarrow> string" where
  "patch_sql updates = ''UPDATE orders SET '' @ join '', '' updates @ '' WHERE ORD_NUM=?''"

definition patch_orders :: "validator_lib \<Rightarrow> db \<Rightarrow> string \<Rightarrow> obj \<Rightarrow> outcome" where
  "patch_orders L d ord b =
     (let vr = validate (patch_validators L) (keyed_request ord b);
          req = fst vr; errors = snd vr
      in if errors \<noteq> [] then respond 400 (Errors errors) d []
         else (let updates = fst (patch_build req); vals = snd (patch_build req)
               in case getConnection d of
                    Inl err \<Rightarrow> respond 500 (ErrorMsg err) d []
                  | Inr conn \<Rightarrow>
                      (case update_dynamic (patch_sql updates) updates vals d of
                         Inl err \<Rightarrow> respond 500 (ErrorMsg err) d [(patch_sql updates, vals)]
                       | Inr res \<Rightarrow>
                           if fst res = 0
                           then respond 404 (Message ''Order not found'') (snd res)
                                  [(patch_sql updates, vals)]
                           else respond 200 (Message ''Order partially updated'') (snd res)
                                  [(patch_sql updates, vals)])))"

subsection \<open>DELETE /orders/:ORD_NUM\<close>

definition delete_sql :: string where
  "delete_sql = ''DELETE FROM orders WHERE ORD_NUM=?''"

text \<open>The chain \<open>param("ORD_NUM").isInt()\<close> runs as middleware, but the handler never calls
  \<open>validationResult\<close>: the collected list is not read.\<close>

definition delete_orders :: "validator_lib \<Rightarrow> db \<Rightarrow> string \<Rightarrow> outcome" where
  "delete_orders L d ord =
     (let vr = validate (delete_validators L) (keyed_request ord []);
          req = fst vr;
          ord_num = get_prop (params req) ''ORD_NUM''
      in case getConnection d of
           Inl err \<Rightarrow> respond 500 (ErrorMsg err) d []
         | Inr conn \<Rightarrow>
             (case delete_order ord_num d of
                Inl err \<Rightarrow> respond 500 (ErrorMsg err) d [(delete_sql, [ord_num])]
              | Inr res \<Rightarrow>
                  if fst res = 0
                  then respond 404 (Message ''Order not found'') (snd res)
                         [(delete_sql, [ord_num])]
                  else respond 200 (MessageOrd ''Order deleted'' ord_num) (snd res)
                         [(delete_sql, [ord_num])]))"

section \<open>A validation library to run the routes on\<close>

text \<open>
  Modelled from the spec: validator.js is not under src/. \<open>validator_js\<close> gives each
  function of the library a computable reading, used where a route is evaluated on a
  concrete request. \<open>isInt\<close>, \<open>isDecimal\<close>, \<open>isFloat\<close>, \<open>isISO8601\<close>, \<open>isEmpty\<close>,
  \<open>isLength\<close>, \<open>trim\<close> and \<open>escape\<close> follow the library's patterns on single-byte text;
  \<open>isDate\<close> covers its default format, a calendar date \<open>YYYY/MM/DD\<close> or \<open>YYYY-MM-DD\<close>.
\<close>

definition isInt_js :: "string \<Rightarrow> bool" where
  \<comment> \<open>an optional sign, then one or more digits\<close>
  "isInt_js s = (drop_sign s \<noteq> [] \<and> list_all is_digit (drop_sign s))"

definition isDecimal_js :: "string \<Rightarrow> bool" where
  \<comment> \<open>an optional sign, optional digits, optionally a point followed by one or more digits;
     and not the empty text or a lone sign once spaces are removed\<close>
  "isDecimal_js s =
     (let frac = dropWhile is_digit (drop_sign s)
      in filter (\<lambda>c. c \<noteq> CHR '' '') s \<notin> set [[], ''-'', ''+''] \<and>
         (frac = [] \<or> (take 1 frac = ''.'' \<and> tl frac \<noteq> [] \<and> list_all is_digit (tl frac))))"

text \<open>
  \<open>isFloat(str, {min: 0})\<close>: the text is an optional sign, optional digits, optionally a
  point with optional digits, optionally an exponent (\<open>e\<close> or \<open>E\<close>, an optional sign, one or
  more digits); it is not empty, a lone point, a lone comma or a lone sign; and
  \<open>parseFloat(str) >= 0\<close>. Without a digit in the mantissa \<open>parseFloat\<close> is \<open>NaN\<close>; with a
  minus sign the value is \<open>>= 0\<close> only when it is \<open>-0\<close>, that is when the magnitude is at most
  \<open>2^-1075\<close> and rounds to zero.
\<close>

definition isFloat_min0_js :: "string \<Rightarrow> bool" where
  "isFloat_min0_js s =
     (let t = drop_sign s;
          ip = takeWhile is_digit t;
          r1 = dropWhile is_digit t;
          fp = (if take 1 r1 = ''.'' then takeWhile is_digit (tl r1) else []);
          r2 = (if take 1 r1 = ''.'' then dropWhile is_digit (tl r1) else r1);
          ex = drop_sign (tl r2);
          m = nat_of_digits (ip @ fp);
          e = (if r2 = [] then 0
               else if take 1 (tl r2) = ''-'' then - int (nat_of_digits ex)
               else int (nat_of_digits ex)) - int (length fp)
      in s \<notin> set [[], ''.'', '','', ''-'', ''+''] \<and>
         (r2 = [] \<or> ((take 1 r2 = ''e'' \<or> take 1 r2 = ''E'') \<and> ex \<noteq> [] \<and> list_all is_digit ex)) \<and>
         ip @ fp \<noteq> [] \<and>
         (if take 1 s = ''-'' then m = 0 \<or> (e < 0 \<and> int m * 2 ^ 1075 \<le> 10 ^ nat (- e))
          else True))"

fun split_on :: "char \<Rightarrow> string \<Rightarrow> string list" where
  "split_on d [] = [[]]"
| "split_on d (c # cs) =
     (if c = d then [] # split_on d cs
      else (case split_on d cs of [] \<Rightarrow> [[c]] | w # ws \<Rightarrow> (c # w) # ws))"

definition days_in_month :: "nat \<Rightarrow> nat \<Rightarrow> nat" where
  "days_in_month y m =
     (if m = 2 then (if y mod 400 = 0 \<or> (y mod 4 = 0 \<and> y mod 100 \<noteq> 0) then 29 else 28)
      else if m \<in> set [4, 6, 9, 11] then 30 else 31)"

definition isDate_js :: "string \<Rightarrow> bool" where
  "isDate_js s =
     (case split_on (if CHR ''/'' \<in> set s then CHR ''/'' else CHR ''-'') s of
        [y, m, d] \<Rightarrow>
          length y = 4 \<and> length m = 2 \<and> length d = 2 \<and> list_all is_digit (y @ m @ d) \<and>
          1 \<le> nat_of_digits m \<and> nat_of_digits m \<le> 12 \<and> 1 \<le> nat_of_digits d \<and>
          nat_of_digits d \<le> days_in_month (nat_of_digits y) (nat_of_digits m)
      | _ \<Rightarrow> False)"

text \<open>
  \<open>isISO8601(str)\<close> tests the text against one pattern: a year of four digits with an
  optional sign, not followed by exactly two more digits; then optionally a date (month and
  optional day, or \<open>W\<close> with a week and optional weekday, or a day of the year) written with
  or without hyphens throughout; then optionally \<open>T\<close> or a white space character followed
  by an optional hour part, an optional seconds part and an optional zone. The functions
  below return, for a piece of the pattern, the rests of the text that its matches leave.
\<close>

definition rx_lit :: "string \<Rightarrow> string \<Rightarrow> string list" where
  "rx_lit p s = (if take (length p) s = p then [drop (length p) s] else [])"

definition rx_opt :: "(string \<Rightarrow> string list) \<Rightarrow> string \<Rightarrow> string list" where
  "rx_opt m s = m s @ [s]"

definition rx_then ::
    "(string \<Rightarrow> string list) \<Rightarrow> (string \<Rightarrow> string list) \<Rightarrow> string \<Rightarrow> string list" where
  "rx_then m1 m2 s = concat (map m2 (m1 s))"

text \<open>\<open>k\<close> digits whose value lies between \<open>lo\<close> and \<open>hi\<close>.\<close>

definition rx_number :: "nat \<Rightarrow> nat \<Rightarrow> nat \<Rightarrow> string \<Rightarrow> string list" where
  "rx_number k lo hi s =
     (if length (take k s) = k \<and> list_all is_digit (take k s) \<and>
         lo \<le> nat_of_digits (take k s) \<and> nat_of_digits (take k s) \<le> hi
      then [drop k s] else [])"

text \<open>A point or a comma and one or more digits.\<close>

definition rx_fraction :: "string \<Rightarrow> string list" where
  "rx_fraction s =
     (if take 1 s = ''.'' \<or> take 1 s = '',''
      then map (\<lambda>k. drop k (tl s)) [1 ..< Suc (length (takeWhile is_digit (tl s)))]
      else [])"

definition is_word :: "char \<Rightarrow> bool" where
  "is_word c =
     (c \<in> set ''ABCDEFGHIJKLMNOPQRSTUVWXYZabcdefghijklmnopqrstuvwxyz0123456789_'')"

definition is_space :: "char \<Rightarrow> bool" where
  "is_space c = (of_char c \<in> set [9, 10, 11, 12, 13, 32, 160 :: nat])"

text \<open>The year: the rest must not begin with two digits that end a word.\<close>

definition iso_year :: "string \<Rightarrow> string list" where
  "iso_year s =
     filter (\<lambda>r. \<not> (length (take 2 r) = 2 \<and> list_all is_digit (take 2 r) \<and>
                     list_all (\<lambda>c. \<not> is_word c) (take 1 (drop 2 r))))
       (rx_number 4 0 9999 (drop_sign s))"

text \<open>The date after the year, for the separator \<open>sep\<close> (a hyphen or nothing) that was read
  after the year. The pattern for the day of the year leaves 360 out.\<close>

definition iso_date :: "string \<Rightarrow> string \<Rightarrow> string list" where
  "iso_date sep s =
     rx_then (rx_number 2 1 12) (rx_opt (rx_then (rx_lit sep) (rx_number 2 1 31))) s @
     rx_then (rx_lit ''W'')
       (rx_then (rx_number 2 0 53) (rx_opt (rx_then (rx_opt (rx_lit ''-'')) (rx_number 1 1 7)))) s @
     rx_number 3 1 359 s @ rx_number 3 361 366 s"

text \<open>The hour part: an hour with optional minutes, or \<open>24:00\<close>, and an optional fraction
  not followed by a colon. Each rest comes with the separator read before the minutes (a
  colon, or nothing also when there were no minutes), which the seconds part repeats.\<close>

definition iso_hour :: "string \<Rightarrow> (string \<times> string) list" where
  "iso_hour s =
     concat (map (\<lambda>(c, r). map (Pair c) (r # filter (\<lambda>x. take 1 x \<noteq> '':'') (rx_fraction r)))
       (concat (map (\<lambda>r. ([], r) #
                         map (Pair '':'') (rx_then (rx_lit '':'') (rx_number 2 0 59) r) @
                         map (Pair []) (rx_number 2 0 59 r))
                  (rx_number 2 0 23 s)) @
        map (Pair [])
          (rx_then (rx_lit ''24'') (rx_then (rx_opt (rx_lit '':'')) (rx_lit ''00'')) s)))"

definition iso_second :: "string \<Rightarrow> string \<Rightarrow> string list" where
  "iso_second c s = rx_then (rx_lit c) (rx_then (rx_number 2 0 59) (rx_opt rx_fraction)) s"

definition iso_zone :: "string \<Rightarrow> string list" where
  "iso_zone s =
     (if take 1 s = ''z'' \<or> take 1 s = ''Z'' then [tl s]
      else if take 1 s = ''+'' \<or> take 1 s = ''-''
      then rx_then (rx_number 2 0 23)
             (rx_then (rx_opt (rx_lit '':'')) (rx_opt (rx_number 2 0 59))) (tl s)
      else [])"

definition iso_time :: "string \<Rightarrow> string list" where
  "iso_time s =
     (case s of
        [] \<Rightarrow> []
      | t # rest \<Rightarrow>
          if t = CHR ''T'' \<or> is_space t
          then concat (map (rx_opt iso_zone)
                 (concat (map (\<lambda>(c, r). r # iso_second c r) (([], rest) # iso_hour rest))))
          else [])"

definition isISO8601_js :: "string \<Rightarrow> bool" where
  "isISO8601_js s =
     ([] \<in> set (concat (map (\<lambda>r. r #
                     concat (map (\<lambda>sep. rx_then (rx_then (rx_lit sep) (iso_date sep))
                                           (rx_opt iso_time) r)
                               [''-'', []]))
                   (iso_year s))))"

definition trim_js :: "string \<Rightarrow> string" where
  "trim_js s = rev (dropWhile is_space (rev (dropWhile is_space s)))"

definition escape_char :: "char \<Rightarrow> string" where
  "escape_char c =
     (if c = CHR ''&'' then ''&amp;''
      else if c = CHR 0x22 then ''&quot;''
      else if c = CHR 0x27 then ''&#x27;''
      else if c = CHR ''<'' then ''&lt;''
      else if c = CHR ''>'' then ''&gt;''
      else if c = CHR ''/'' then ''&#x2F;''
      else if c = CHR 0x5C then ''&#x5C;''
      else if c = CHR 0x60 then ''&#96;''
      else [c])"

definition escape_js :: "string \<Rightarrow> string" where
  "escape_js s = concat (map escape_char s)"

definition validator_js :: validator_lib where
  "validator_js =
     \<lparr>isFloat_min0 = isFloat_min0_js, isDate = isDate_js, isEmpty = (\<lambda>s. s = []),
      isInt = isInt_js, isDecimal = isDecimal_js, isISO8601 = isISO8601_js,
      isLength_min1 = (\<lambda>s. 1 \<le> length s), trim = trim_js, escape = escape_js,
      number_text = number_to_string\<rparr>"

section \<open>What the specification says, and requests to run\<close>

text \<open>The violations of a creation payload, one entry per constraint of the spec's creation
  rule set that the payload breaks, in the order of the rule set.\<close>

definition post_violations :: "validator_lib \<Rightarrow> obj \<Rightarrow> verror list" where
  "post_violations L b =
     concat (map (\<lambda>(f, ok, m). if ok (get_prop b f) then []
                    else [\<lparr>location = Body, field = f, msg = m, val = get_prop b f\<rparr>])
       [(''ORD_AMOUNT'', standard L (isFloat_min0 L), ''ORD_AMOUNT must be a positive number''),
        (''ADVANCE_AMOUNT'', standard L (isFloat_min0 L), ''ADVANCE_AMOUNT must be a positive number''),
        (''ORD_DATE'', standard L (isDate L), ''ORD_DATE must be a valid date''),
        (''CUST_CODE'', notEmpty L, ''CUST_CODE is required''),
        (''AGENT_CODE'', notEmpty L, ''AGENT_CODE is required''),
        (''ORD_DESCRIPTION'', notEmpty L, ''ORD_DESCRIPTION is required'')])"

text \<open>The maximum \<open>ORD_NUM\<close> of the table, 0 when the table is empty.\<close>

definition max_or_zero :: "db \<Rightarrow> int" where
  "max_or_zero d = (if orders d = [] then 0 else Max (ORD_NUM ` set (orders d)))"

text \<open>The value of a body key as the partial update binds it: the description is trimmed,
  every other value is the one the client sent.\<close>

definition patch_value :: "validator_lib \<Rightarrow> obj \<Rightarrow> string \<Rightarrow> jsval" where
  "patch_value L b key =
     (if key = ''ORD_DESCRIPTION'' \<and> get_prop b key \<noteq> JUndefined
      then JStr (trim L (toString L (get_prop b key))) else get_prop b key)"

text \<open>The columns of \<open>orders\<close> a request body may carry.\<close>

definition order_columns :: "string list" where
  "order_columns =
     [''ORD_AMOUNT'', ''ADVANCE_AMOUNT'', ''ORD_DATE'', ''CUST_CODE'', ''AGENT_CODE'',
      ''ORD_DESCRIPTION'']"

text \<open>The payload of the spec's Scenario A, an empty table, and the table after Scenario A.\<close>

definition scenario_A :: obj where
  "scenario_A =
     [(''ORD_AMOUNT'', JNum 5000), (''ADVANCE_AMOUNT'', JNum 1000),
      (''ORD_DATE'', JStr ''2025-09-28''), (''CUST_CODE'', JStr ''C00001''),
      (''AGENT_CODE'', JStr ''A003''), (''ORD_DESCRIPTION'', JStr ''New order'')]"

text \<open>The tables below belong to a store that knows no column but those of \<open>orders\<close>.\<close>

definition unknown_column :: "string \<Rightarrow> jsval list \<Rightarrow> order list \<Rightarrow> string + (nat \<times> order list)" where
  "unknown_column sql vals rows = Inl ''Unknown column in field list''"

definition empty_table :: db where
  "empty_table = \<lparr>orders = [], reachable = True, other_sql = unknown_column\<rparr>"

definition one_order :: db where
  "one_order =
     \<lparr>orders = [\<lparr>ORD_NUM = 1, ORD_AMOUNT = JNum 5000, ADVANCE_AMOUNT = JNum 1000,
                  ORD_DATE = JStr ''2025-09-28'', CUST_CODE = JStr ''C00001'',
                  AGENT_CODE = JStr ''A003'', ORD_DESCRIPTION = JStr ''New order''\<rparr>],
      reachable = True, other_sql = unknown_column\<rparr>"

text \<open>Scenario A's payload with a negative amount, and without its description.\<close>

definition negative_amount :: obj where
  "negative_amount =
     [(''ORD_AMOUNT'', JNum (- 5)), (''ADVANCE_AMOUNT'', JNum 1000),
      (''ORD_DATE'', JStr ''2025-09-28''), (''CUST_CODE'', JStr ''C00001''),
      (''AGENT_CODE'', JStr ''A003''), (''ORD_DESCRIPTION'', JStr ''New order'')]"

definition no_description :: obj where
  "no_description =
     [(''ORD_AMOUNT'', JStr ''5000.00''), (''ADVANCE_AMOUNT'', JStr ''1000.00''),
      (''ORD_DATE'', JStr ''2025-09-28''), (''CUST_CODE'', JStr ''C00001''),
      (''AGENT_CODE'', JStr ''A003'')]"

text \<open>A table with the orders 1 and 2.\<close>

definition two_orders :: db where
  "two_orders =
     \<lparr>orders = [\<lparr>ORD_NUM = 1, ORD_AMOUNT = JNum 5000, ADVANCE_AMOUNT = JNum 1000,
                  ORD_DATE = JStr ''2025-09-28'', CUST_CODE = JStr ''C00001'',
                  AGENT_CODE = JStr ''A003'', ORD_DESCRIPTION = JStr ''New order''\<rparr>,
                 \<lparr>ORD_NUM = 2, ORD_AMOUNT = JNum 200, ADVANCE_AMOUNT = JNum 0,
                  ORD_DATE = JStr ''2025-10-01'', CUST_CODE = JStr ''C00002'',
                  AGENT_CODE = JStr ''A001'', ORD_DESCRIPTION = JStr ''Second order''\<rparr>],
      reachable = True, other_sql = unknown_column\<rparr>"

text \<open>A partial update of the amount and the description.\<close>

definition rush_patch :: obj where
  "rush_patch = [(''ORD_AMOUNT'', JNum 6000), (''ORD_DESCRIPTION'', JStr '' rush '')]"

section \<open>Objects and the chain runner\<close>

lemma get_prop_set_prop:
  "get_prop (set_prop b k v) k' = (if k' = k then v else get_prop b k')"
  by (induction b k v rule: set_prop.induct) (auto simp: get_prop_def)

lemma get_prop_absent: "k \<notin> fst ` set b \<Longrightarrow> get_prop b k = JUndefined"
  by (simp add: get_prop_def map_of_eq_None_iff[THEN iffD2])

lemma keys_set_prop: "k \<in> fst ` set b \<Longrightarrow> map fst (set_prop b k v) = map fst b"
  by (induction b k v rule: set_prop.induct) auto

lemma get_field_request:
  "get_field \<lparr>params = ps, body = b\<rparr> Body f = get_prop b f"
  "get_field \<lparr>params = ps, body = b\<rparr> Params f = get_prop ps f"
  by (simp_all add: get_field_def)

lemma get_field_write_back:
  "get_field (write_back req l f v) l' f' =
     (if l' = l \<and> f' = f then v else get_field req l' f')"
  by (cases l; cases l') (auto simp: write_back_def get_field_def set_field_def get_prop_set_prop)

lemma params_write_back_Body: "params (write_back req Body f v) = params req"
  by (simp add: write_back_def set_field_def)

lemma keys_write_back:
  assumes "get_field req Body f \<noteq> JUndefined"
  shows "map fst (body (write_back req Body f v)) = map fst (body req)"
proof -
  have "f \<in> fst ` set (body req)"
    using assms get_prop_absent[of f "body req"] by (auto simp: get_field_def)
  then show ?thesis
    by (simp add: write_back_def set_field_def keys_set_prop)
qed

text \<open>The violations a chain collects do not depend on those collected before it, and they
  are appended to them.\<close>

lemma run_item_errs:
  "run_item c (req, errs) it =
     (fst (run_item c (req, []) it), errs @ snd (run_item c (req, []) it))"
  by (simp add: run_item_def Let_def split: item.splits)

lemma foldl_run_item_errs:
  "foldl (run_item c) (req, errs) its =
     (fst (foldl (run_item c) (req, []) its), errs @ snd (foldl (run_item c) (req, []) its))"
proof (induction its arbitrary: req errs)
  case Nil
  show ?case by simp
next
  case (Cons it its)
  obtain r e where re: "run_item c (req, []) it = (r, e)"
    by (cases "run_item c (req, []) it")
  have step: "run_item c (req, errs) it = (r, errs @ e)"
    using run_item_errs[of c req errs it] re by simp
  show ?case
    using Cons.IH[of r "errs @ e"] Cons.IH[of r e] by (simp add: step re)
qed

lemma run_chain_errs:
  "run_chain (req, errs) c =
     (fst (run_chain (req, []) c), errs @ snd (run_chain (req, []) c))"
  unfolding run_chain_def by (rule foldl_run_item_errs)

lemma foldl_run_chain_errs:
  "foldl run_chain (req, errs) cs =
     (fst (foldl run_chain (req, []) cs), errs @ snd (foldl run_chain (req, []) cs))"
proof (induction cs arbitrary: req errs)
  case Nil
  show ?case by simp
next
  case (Cons c cs)
  obtain r e where re: "run_chain (req, []) c = (r, e)"
    by (cases "run_chain (req, []) c")
  have step: "run_chain (req, errs) c = (r, errs @ e)"
    using run_chain_errs[of req errs c] re by simp
  show ?case
    using Cons.IH[of r "errs @ e"] Cons.IH[of r e] by (simp add: step re)
qed

lemma validate_Nil: "validate [] req = (req, [])"
  by (simp add: validate_def)

lemma validate_Cons:
  "validate (c # cs) req =
     (fst (validate cs (fst (run_chain (req, []) c))),
      snd (run_chain (req, []) c) @ snd (validate cs (fst (run_chain (req, []) c))))"
proof -
  obtain r e where re: "run_chain (req, []) c = (r, e)"
    by (cases "run_chain (req, []) c")
  show ?thesis
    using foldl_run_chain_errs[of r e cs] by (simp add: validate_def re)
qed

text \<open>The chains the four routes use come in five shapes.\<close>

lemma chain_check:
  "run_chain (req, [])
     \<lparr>chain_location = l, chain_field = f, optional = False, items = [Check p m]\<rparr> =
     (req, if p (get_field req l f) then []
           else [\<lparr>location = l, field = f, msg = m, val = get_field req l f\<rparr>])"
  by (simp add: run_chain_def run_item_def Let_def)

lemma chain_check_optional:
  "run_chain (req, [])
     \<lparr>chain_location = l, chain_field = f, optional = True, items = [Check p m]\<rparr> =
     (req, if get_field req l f = JUndefined \<or> p (get_field req l f) then []
           else [\<lparr>location = l, field = f, msg = m, val = get_field req l f\<rparr>])"
  by (simp add: run_chain_def run_item_def Let_def)

lemma chain_check_sanitize:
  "run_chain (req, [])
     \<lparr>chain_location = l, chain_field = f, optional = False,
      items = [Check p m, Sanitize g]\<rparr> =
     (write_back req l f (g (get_field req l f)),
      if p (get_field req l f) then []
      else [\<lparr>location = l, field = f, msg = m, val = get_field req l f\<rparr>])"
  by (simp add: run_chain_def run_item_def Let_def)

lemma chain_check_sanitize2:
  "run_chain (req, [])
     \<lparr>chain_location = l, chain_field = f, optional = False,
      items = [Check p m, Sanitize g, Sanitize h]\<rparr> =
     (write_back (write_back req l f (g (get_field req l f))) l f (h (g (get_field req l f))),
      if p (get_field req l f) then []
      else [\<lparr>location = l, field = f, msg = m, val = get_field req l f\<rparr>])"
  by (simp add: run_chain_def run_item_def Let_def get_field_write_back)

lemma chain_sanitize_optional:
  "run_chain (req, [])
     \<lparr>chain_location = l, chain_field = f, optional = True, items = [Sanitize g]\<rparr> =
     (if get_field req l f = JUndefined then req
      else write_back req l f (g (get_field req l f)), [])"
  by (simp add: run_chain_def run_item_def Let_def)

lemmas chain_shapes =
  chain_check chain_check_optional chain_check_sanitize chain_check_sanitize2
  chain_sanitize_optional

lemma post_errors:
  "snd (validate (post_validators L) \<lparr>params = ps, body = b\<rparr>) = post_violations L b"
  by (simp add: post_validators_def body_chain_def validate_Cons validate_Nil chain_shapes
        get_field_write_back post_violations_def get_field_request)

section \<open>Creation: the identifier allocator and the validation contract\<close>

lemma max_ord_num_Max:
  "max_ord_num rs = (if rs = [] then None else Some (Max (ORD_NUM ` set rs)))"
  by (induction rs) (auto simp: max.commute)

lemma js_or_zero_Some: "js_or_zero (Some n) = n"
  by (simp add: js_or_zero_def)

lemma next_is_fresh: "js_or_zero (max_ord_num rs) + 1 \<notin> ORD_NUM ` set rs"
proof
  assume a: "js_or_zero (max_ord_num rs) + 1 \<in> ORD_NUM ` set rs"
  then have ne: "rs \<noteq> []" by auto
  have "js_or_zero (max_ord_num rs) + 1 \<le> Max (ORD_NUM ` set rs)"
    using a by (intro Max_ge) auto
  then show False using ne by (simp add: max_ord_num_Max js_or_zero_Some)
qed

lemma next_is_max: "js_or_zero (max_ord_num (orders d)) = max_or_zero d"
  by (simp add: max_ord_num_Max max_or_zero_def js_or_zero_Some js_or_zero_def)

lemma post_orders_valid:
  assumes "post_violations L b = []" and "reachable d"
  shows "post_orders L d b =
     respond 201 (MessageOrd ''Order created successfully'' (JNum (max_or_zero d + 1)))
       (d\<lparr>orders := orders d @ [\<lparr>ORD_NUM = max_or_zero d + 1,
           ORD_AMOUNT = get_prop (body (fst (validate (post_validators L) \<lparr>params = [], body = b\<rparr>))) ''ORD_AMOUNT'',
           ADVANCE_AMOUNT = get_prop (body (fst (validate (post_validators L) \<lparr>params = [], body = b\<rparr>))) ''ADVANCE_AMOUNT'',
           ORD_DATE = get_prop (body (fst (validate (post_validators L) \<lparr>params = [], body = b\<rparr>))) ''ORD_DATE'',
           CUST_CODE = get_prop (body (fst (validate (post_validators L) \<lparr>params = [], body = b\<rparr>))) ''CUST_CODE'',
           AGENT_CODE = get_prop (body (fst (validate (post_validators L) \<lparr>params = [], body = b\<rparr>))) ''AGENT_CODE'',
           ORD_DESCRIPTION = get_prop (body (fst (validate (post_validators L) \<lparr>params = [], body = b\<rparr>))) ''ORD_DESCRIPTION''\<rparr>]\<rparr>)
       (issued (post_orders L d b))"
  using assms next_is_fresh[of "orders d"]
  by (simp add: post_orders_def post_errors Let_def getConnection_def select_max_def
        insert_order_def next_is_max respond_def)

lemma post_status_201:
  "status (reply (post_orders L d b)) = 201 \<longleftrightarrow> post_violations L b = [] \<and> reachable d"
  using next_is_fresh[of "orders d"]
  by (auto simp: post_orders_def post_errors Let_def getConnection_def select_max_def
        insert_order_def respond_def )

lemma scenario_A_valid:
  "snd (validate (post_validators validator_js) \<lparr>params = [], body = scenario_A\<rparr>) = []"
  by code_simp

text \<open>
  Claim C1. A creation whose payload passes validation and that reaches the store answers
  201 with the message \<open>Order created successfully\<close> and \<open>ORD_NUM\<close> one more than the maximum
  \<open>ORD_NUM\<close> of the table before the call, the maximum of an empty table being 0; the new row
  carries that key. Conversely every 201 of the route carries that identifier.
\<close>

theorem post_orders_allocates_max_plus_one:
  "(snd (validate (post_validators L) \<lparr>params = [], body = b\<rparr>) = [] \<and> reachable d \<longrightarrow>
      reply (post_orders L d b) =
        \<lparr>status = 201,
         json = MessageOrd ''Order created successfully'' (JNum (max_or_zero d + 1))\<rparr> \<and>
      map ORD_NUM (orders (store (post_orders L d b))) =
        map ORD_NUM (orders d) @ [max_or_zero d + 1]) \<and>
   (status (reply (post_orders L d b)) = 201 \<longrightarrow>
      json (reply (post_orders L d b)) =
        MessageOrd ''Order created successfully'' (JNum (max_or_zero d + 1)))"
proof (intro conjI impI)
  assume v: "snd (validate (post_validators L) \<lparr>params = [], body = b\<rparr>) = [] \<and> reachable d"
  then have ok: "post_violations L b = []" "reachable d"
    by (simp_all add: post_errors)
  show "reply (post_orders L d b) =
        \<lparr>status = 201,
         json = MessageOrd ''Order created successfully'' (JNum (max_or_zero d + 1))\<rparr>"
    by (subst post_orders_valid[OF ok]) (simp add: respond_def)
  show "map ORD_NUM (orders (store (post_orders L d b))) =
        map ORD_NUM (orders d) @ [max_or_zero d + 1]"
    by (subst post_orders_valid[OF ok]) (simp add: respond_def)
next
  assume "status (reply (post_orders L d b)) = 201"
  then have ok: "post_violations L b = []" "reachable d"
    by (simp_all add: post_status_201)
  show "json (reply (post_orders L d b)) =
        MessageOrd ''Order created successfully'' (JNum (max_or_zero d + 1))"
    by (subst post_orders_valid[OF ok]) (simp add: respond_def)
qed

text \<open>Scenario A of the spec is such a creation: on the empty table it answers 201 with
  \<open>ORD_NUM\<close> 1.\<close>

theorem post_orders_scenario_A:
  "snd (validate (post_validators validator_js) \<lparr>params = [], body = scenario_A\<rparr>) = [] \<and>
   reachable empty_table \<and> orders empty_table = [] \<and>
   reply (post_orders validator_js empty_table scenario_A) =
     \<lparr>status = 201, json = MessageOrd ''Order created successfully'' (JNum 1)\<rparr> \<and>
   map ORD_NUM (orders (store (post_orders validator_js empty_table scenario_A))) = [1]"
  using post_orders_allocates_max_plus_one[of validator_js scenario_A empty_table]
    scenario_A_valid
  by (simp add: empty_table_def max_or_zero_def)

text \<open>
  Claim C7. A creation payload that breaks one or more constraints is answered 400 with
  the whole list of violations, one \<open>{field, message}\<close> entry per broken constraint and not
  only the first; the store is left as it was and no statement is sent to it.
\<close>

theorem post_rejects_with_every_violation:
  "post_violations L b \<noteq> [] \<Longrightarrow>
   reply (post_orders L d b) = \<lparr>status = 400, json = Errors (post_violations L b)\<rparr> \<and>
   store (post_orders L d b) = d \<and> issued (post_orders L d b) = []"
  by (simp add: post_orders_def post_errors Let_def respond_def)

text \<open>The empty payload breaks all six constraints, and all six are reported.\<close>

lemma empty_payload_violations:
  "map field (post_violations validator_js []) =
     [''ORD_AMOUNT'', ''ADVANCE_AMOUNT'', ''ORD_DATE'', ''CUST_CODE'', ''AGENT_CODE'',
      ''ORD_DESCRIPTION'']"
  by code_simp

theorem post_rejects_empty_payload:
  "map field (post_violations validator_js []) =
     [''ORD_AMOUNT'', ''ADVANCE_AMOUNT'', ''ORD_DATE'', ''CUST_CODE'', ''AGENT_CODE'',
      ''ORD_DESCRIPTION''] \<and>
   reply (post_orders validator_js one_order []) =
     \<lparr>status = 400, json = Errors (post_violations validator_js [])\<rparr> \<and>
   store (post_orders validator_js one_order []) = one_order \<and>
   issued (post_orders validator_js one_order []) = []"
proof -
  have ne: "post_violations validator_js [] \<noteq> []"
    using empty_payload_violations by auto
  show ?thesis
    using post_rejects_with_every_violation[OF ne, of one_order] empty_payload_violations
    by simp
qed

section \<open>Full replace: what its validators let through\<close>

text \<open>
  Claim C5. A full replace of order 1 with \<open>ORD_AMOUNT\<close> -5 is answered 200 and the negative
  amount is stored; the creation route reports the same payload as a violation of
  \<open>ORD_AMOUNT\<close>.
\<close>

theorem put_negative_amount_accepted:
  "reply (put_orders validator_js one_order ''1'' negative_amount) =
     \<lparr>status = 200, json = MessageOrd ''Order updated'' (JStr ''1'')\<rparr> \<and>
   ORD_AMOUNT (hd (orders (store (put_orders validator_js one_order ''1'' negative_amount)))) =
     JNum (- 5) \<and>
   map field (post_violations validator_js negative_amount) = [''ORD_AMOUNT'']"
  by code_simp

text \<open>
  Claim C6. A full replace that supplies the five other fields and omits \<open>ORD_DESCRIPTION\<close> is
  answered 400, with a violation on \<open>ORD_DESCRIPTION\<close>.
\<close>

theorem put_without_description_rejected:
  "reply (put_orders validator_js one_order ''1'' no_description) =
     \<lparr>status = 400,
      json = Errors [\<lparr>location = Body, field = ''ORD_DESCRIPTION'', msg = ''Invalid value'',
                      val = JUndefined\<rparr>]\<rparr>"
  by code_simp

section \<open>Partial update: the statement built from the body\<close>

lemma patch_request:
  "fst (validate (patch_validators L) (keyed_request ord b)) =
     (if get_prop b ''ORD_DESCRIPTION'' = JUndefined then keyed_request ord b
      else write_back (keyed_request ord b) Body ''ORD_DESCRIPTION''
             (sanitizer L (trim L) (get_prop b ''ORD_DESCRIPTION'')))"
  by (simp add: patch_validators_def body_chain_def param_chain_def validate_Cons validate_Nil
        chain_shapes keyed_request_def get_field_request)

lemma patch_keys:
  "map fst (body (fst (validate (patch_validators L) (keyed_request ord b)))) = map fst b"
proof (cases "get_prop b ''ORD_DESCRIPTION'' = JUndefined")
  case True
  then show ?thesis by (simp add: patch_request) (simp add: keyed_request_def)
next
  case False
  then have "get_field (keyed_request ord b) Body ''ORD_DESCRIPTION'' \<noteq> JUndefined"
    by (simp add: keyed_request_def get_field_request)
  from keys_write_back[OF this] False show ?thesis
    by (simp add: patch_request) (simp add: keyed_request_def)
qed

lemma patch_values:
  "get_prop (body (fst (validate (patch_validators L) (keyed_request ord b)))) key =
     patch_value L b key"
proof -
  have "get_prop (body req) key = get_field req Body key" for req
    by (simp add: get_field_def)
  then show ?thesis
    by (simp add: patch_request get_field_write_back patch_value_def sanitizer_def)
       (simp add: keyed_request_def get_field_request)
qed

lemma patch_params:
  "get_prop (params (fst (validate (patch_validators L) (keyed_request ord b)))) ''ORD_NUM'' =
     JStr ord"
  by (simp add: patch_request params_write_back_Body) (simp add: keyed_request_def get_prop_def)

lemma patch_loop_eq:
  "patch_loop b keys updates vals =
     (updates @ map (\<lambda>key. key @ ''=?'') keys, vals @ map (get_prop b) keys)"
  by (induction keys arbitrary: updates vals) simp_all

lemma patch_build_eq:
  "patch_build (fst (validate (patch_validators L) (keyed_request ord b))) =
     (map (\<lambda>key. key @ ''=?'') (map fst b), map (patch_value L b) (map fst b) @ [JStr ord])"
  by (simp add: patch_build_def patch_loop_eq patch_keys patch_params patch_values)

text \<open>
  Claim C3. For a non-empty body that passes validation, the statement sent to the store is
  \<open>UPDATE orders SET\<close>, one fragment \<open>key=?\<close> per key of the body in the body's key
  order joined by a comma and a space, then \<open>WHERE ORD_NUM=?\<close>; the bound values are the
  body's values in the same order (the description trimmed by the validation chain), with
  the path parameter \<open>ORD_NUM\<close> last.
\<close>

theorem patch_statement_follows_body:
  assumes "snd (validate (patch_validators L) (keyed_request ord b)) = []"
      and "reachable d" and "b \<noteq> []"
  shows "issued (patch_orders L d ord b) =
     [(''UPDATE orders SET '' @ join '', '' (map (\<lambda>key. key @ ''=?'') (map fst b)) @
         '' WHERE ORD_NUM=?'',
       map (patch_value L b) (map fst b) @ [JStr ord])]"
  using assms
  by (simp add: patch_orders_def Let_def patch_build_eq getConnection_def respond_def
        patch_sql_def split: sum.splits)

text \<open>A body with two keys, run against the table holding order 1.\<close>

lemma rush_patch_valid:
  "snd (validate (patch_validators validator_js) (keyed_request ''1'' rush_patch)) = []"
  by code_simp

lemma rush_patch_values:
  "map (patch_value validator_js rush_patch) (map fst rush_patch) = [JNum 6000, JStr ''rush'']"
  by code_simp

theorem patch_statement_rush:
  "snd (validate (patch_validators validator_js) (keyed_request ''1'' rush_patch)) = [] \<and>
   reachable one_order \<and> rush_patch \<noteq> [] \<and>
   issued (patch_orders validator_js one_order ''1'' rush_patch) =
     [(''UPDATE orders SET ORD_AMOUNT=?, ORD_DESCRIPTION=? WHERE ORD_NUM=?'',
       [JNum 6000, JStr ''rush'', JStr ''1''])]"
proof -
  have r: "reachable one_order" by (simp add: one_order_def)
  have ne: "rush_patch \<noteq> []" by (simp add: rush_patch_def)
  show ?thesis
    using patch_statement_follows_body[OF rush_patch_valid r ne] rush_patch_valid r ne
      rush_patch_values
    by (simp add: rush_patch_def)
qed

text \<open>
  Claim C2. For the empty body the statement the handler builds has an empty \<open>SET\<close>
  clause, whatever the path parameter. On the table holding order 1 the empty body passes
  validation and that statement is sent to the store; the request is neither rejected nor
  treated as a no-op, and the store's syntax error comes back as a 500.
\<close>

theorem patch_empty_body_empty_set_clause:
  "patch_sql (fst (patch_build (fst (validate (patch_validators L) (keyed_request ord [])))))
     = ''UPDATE orders SET  WHERE ORD_NUM=?'' \<and>
   snd (validate (patch_validators validator_js) (keyed_request ''1'' [])) = [] \<and>
   issued (patch_orders validator_js one_order ''1'' []) =
     [(''UPDATE orders SET  WHERE ORD_NUM=?'', [JStr ''1''])] \<and>
   status (reply (patch_orders validator_js one_order ''1'' [])) = 500"
proof (intro conjI)
  show "patch_sql (fst (patch_build (fst (validate (patch_validators L) (keyed_request ord [])))))
     = ''UPDATE orders SET  WHERE ORD_NUM=?''"
    by (simp add: patch_build_eq patch_sql_def)
  show "snd (validate (patch_validators validator_js) (keyed_request ''1'' [])) = []"
    by code_simp
  show "issued (patch_orders validator_js one_order ''1'' []) =
     [(''UPDATE orders SET  WHERE ORD_NUM=?'', [JStr ''1''])]"
    by code_simp
  show "status (reply (patch_orders validator_js one_order ''1'' [])) = 500"
    by code_simp
qed

text \<open>
  Claim C8, as amended. The fragments of the \<open>SET\<close> clause are exactly the keys of the
  request body, each followed by \<open>=?\<close>, in the body's order: every key the client sent
  appears as a column name, and nothing filters the keys against a list of columns.
\<close>

theorem patch_set_clause_is_body_keys:
  "fst (patch_build (fst (validate (patch_validators L) (keyed_request ord b)))) =
     map (\<lambda>key. key @ ''=?'') (map fst b)"
  by (simp add: patch_build_eq)

text \<open>
  Claim C8 as the spec states it fails: the key \<open>FOO\<close> of a request body is no column of
  \<open>orders\<close>, and it reaches the text of the statement sent to the store.
\<close>

theorem patch_unknown_key_reaches_sql:
  "issued (patch_orders validator_js one_order ''1'' [(''FOO'', JNum 1)]) =
     [(''UPDATE orders SET FOO=? WHERE ORD_NUM=?'', [JNum 1, JStr ''1''])] \<and>
   ''FOO'' \<notin> set order_columns"
  by code_simp

section \<open>Deletion\<close>

lemma delete_params:
  "get_prop (params (fst (validate (delete_validators L) (keyed_request ord b)))) ''ORD_NUM'' =
     JStr ord"
  by (simp add: delete_validators_def param_chain_def validate_Cons validate_Nil chain_shapes
        keyed_request_def get_prop_def)

lemma delete_orders_eq:
  "delete_orders L d ord =
     (if \<not> reachable d then respond 500 (ErrorMsg ''connect ECONNREFUSED'') d []
      else case delete_order (JStr ord) d of
             Inl err \<Rightarrow> respond 500 (ErrorMsg err) d [(delete_sql, [JStr ord])]
           | Inr res \<Rightarrow>
               if fst res = 0
               then respond 404 (Message ''Order not found'') (snd res) [(delete_sql, [JStr ord])]
               else respond 200 (MessageOrd ''Order deleted'' (JStr ord)) (snd res)
                      [(delete_sql, [JStr ord])])"
  by (simp add: delete_orders_def Let_def delete_params getConnection_def split: sum.splits)

text \<open>
  Claim C4. The deletion route never answers 400. For the path parameter \<open>abc\<close> the
  validation chain records a violation, but the handler does not read it: the \<open>DELETE\<close>
  statement is sent to the store with \<open>abc\<close> bound.
\<close>

theorem delete_non_integer_not_rejected:
  "status (reply (delete_orders L d ord)) \<noteq> 400 \<and>
   snd (validate (delete_validators validator_js) (keyed_request ''abc'' [])) =
     [\<lparr>location = Params, field = ''ORD_NUM'', msg = ''Invalid value'', val = JStr ''abc''\<rparr>] \<and>
   issued (delete_orders validator_js one_order ''abc'') =
     [(''DELETE FROM orders WHERE ORD_NUM=?'', [JStr ''abc''])]"
proof (intro conjI)
  show "status (reply (delete_orders L d ord)) \<noteq> 400"
    by (simp add: delete_orders_eq respond_def split: sum.splits)
  show "snd (validate (delete_validators validator_js) (keyed_request ''abc'' [])) =
     [\<lparr>location = Params, field = ''ORD_NUM'', msg = ''Invalid value'', val = JStr ''abc''\<rparr>]"
    by code_simp
  show "issued (delete_orders validator_js one_order ''abc'') =
     [(''DELETE FROM orders WHERE ORD_NUM=?'', [JStr ''abc''])]"
    by code_simp
qed

text \<open>
  Claim C9. When the store is reachable and a row with the key the path parameter denotes
  exists, the first \<open>DELETE\<close> sends the store the statement \<open>DELETE FROM orders WHERE
  ORD_NUM=?\<close> with the path parameter bound, removes the rows with that key and no other,
  and answers 200 with the message and the path parameter. The same \<open>DELETE\<close> on the
  resulting store sends the same statement, leaves that store as it is, and answers 404
  \<open>Order not found\<close>. On any store the route answers 404 exactly when the statement ran and
  affected zero rows.
\<close>

theorem delete_twice_200_then_404:
  assumes "reachable d" and "int_of_string ord = Some n" and "n \<in> ORD_NUM ` set (orders d)"
  shows "reply (delete_orders L d ord) =
           \<lparr>status = 200, json = MessageOrd ''Order deleted'' (JStr ord)\<rparr> \<and>
         store (delete_orders L d ord) =
           d\<lparr>orders := filter (\<lambda>r. ORD_NUM r \<noteq> n) (orders d)\<rparr> \<and>
         issued (delete_orders L d ord) =
           [(''DELETE FROM orders WHERE ORD_NUM=?'', [JStr ord])] \<and>
         reply (delete_orders L (store (delete_orders L d ord)) ord) =
           \<lparr>status = 404, json = Message ''Order not found''\<rparr> \<and>
         store (delete_orders L (store (delete_orders L d ord)) ord) =
           store (delete_orders L d ord) \<and>
         issued (delete_orders L (store (delete_orders L d ord)) ord) =
           [(''DELETE FROM orders WHERE ORD_NUM=?'', [JStr ord])] \<and>
         (status (reply (delete_orders L d' ord)) = 404 \<longleftrightarrow>
            reachable d' \<and> (\<exists>d''. delete_order (JStr ord) d' = Inr (0, d'')))"
proof -
  have pos: "filter (\<lambda>r. ORD_NUM r = n) (orders d) \<noteq> []"
    using assms(3) by (auto simp: filter_empty_conv)
  have first: "delete_orders L d ord =
      respond 200 (MessageOrd ''Order deleted'' (JStr ord))
        (d\<lparr>orders := filter (\<lambda>r. ORD_NUM r \<noteq> n) (orders d)\<rparr>) [(delete_sql, [JStr ord])]"
    using assms(1,2) pos
    by (simp add: delete_orders_eq delete_order_def sql_int_def)
  have gone: "filter (\<lambda>r. ORD_NUM r = n) (filter (\<lambda>r. ORD_NUM r \<noteq> n) (orders d)) = []"
    by (simp add: filter_empty_conv)
  have second: "delete_orders L (store (delete_orders L d ord)) ord =
      respond 404 (Message ''Order not found'') (store (delete_orders L d ord))
        [(delete_sql, [JStr ord])]"
    using assms(1,2) gone
    by (simp add: first respond_def delete_orders_eq delete_order_def sql_int_def)
  have third: "status (reply (delete_orders L d' ord)) = 404 \<longleftrightarrow>
            reachable d' \<and> (\<exists>d''. delete_order (JStr ord) d' = Inr (0, d''))"
    by (cases "delete_order (JStr ord) d'")
       (auto simp: delete_orders_eq respond_def)
  have r1: "reply (delete_orders L d ord) =
           \<lparr>status = 200, json = MessageOrd ''Order deleted'' (JStr ord)\<rparr>"
    and s1: "store (delete_orders L d ord) =
           d\<lparr>orders := filter (\<lambda>r. ORD_NUM r \<noteq> n) (orders d)\<rparr>"
    and i1: "issued (delete_orders L d ord) =
           [(''DELETE FROM orders WHERE ORD_NUM=?'', [JStr ord])]"
    by (simp_all add: first respond_def delete_sql_def)
  have r2: "reply (delete_orders L (store (delete_orders L d ord)) ord) =
           \<lparr>status = 404, json = Message ''Order not found''\<rparr>"
    and s2: "store (delete_orders L (store (delete_orders L d ord)) ord) =
           store (delete_orders L d ord)"
    and i2: "issued (delete_orders L (store (delete_orders L d ord)) ord) =
           [(''DELETE FROM orders WHERE ORD_NUM=?'', [JStr ord])]"
    by (simp_all add: second respond_def delete_sql_def)
  show ?thesis
    using r1 s1 i1 r2 s2 i2 third by blast
qed

text \<open>Deleting order 1 twice from the table with the orders 1 and 2: order 2 stays.\<close>

lemma int_of_string_1: "int_of_string ''1'' = Some 1"
  by code_simp

theorem delete_twice_order_1:
  "reachable two_orders \<and> int_of_string ''1'' = Some 1 \<and>
   1 \<in> ORD_NUM ` set (orders two_orders) \<and>
   reply (delete_orders validator_js two_orders ''1'') =
     \<lparr>status = 200, json = MessageOrd ''Order deleted'' (JStr ''1'')\<rparr> \<and>
   map ORD_NUM (orders (store (delete_orders validator_js two_orders ''1''))) = [2] \<and>
   issued (delete_orders validator_js two_orders ''1'') =
     [(''DELETE FROM orders WHERE ORD_NUM=?'', [JStr ''1''])] \<and>
   reply (delete_orders validator_js (store (delete_orders validator_js two_orders ''1'')) ''1'') =
     \<lparr>status = 404, json = Message ''Order not found''\<rparr> \<and>
   map ORD_NUM (orders (store (delete_orders validator_js
       (store (delete_orders validator_js two_orders ''1'')) ''1''))) = [2] \<and>
   issued (delete_orders validator_js (store (delete_orders validator_js two_orders ''1'')) ''1'') =
     [(''DELETE FROM orders WHERE ORD_NUM=?'', [JStr ''1''])]"
proof -
  have r: "reachable two_orders" by (simp add: two_orders_def)
  have m: "1 \<in> ORD_NUM ` set (orders two_orders)" by (simp add: two_orders_def)
  note twice = delete_twice_200_then_404[OF r int_of_string_1 m, of validator_js]
  have s1: "store (delete_orders validator_js two_orders ''1'') =
      two_orders\<lparr>orders := filter (\<lambda>r. ORD_NUM r \<noteq> 1) (orders two_orders)\<rparr>"
    using twice by blast
  have k1: "map ORD_NUM (orders (store (delete_orders validator_js two_orders ''1''))) = [2]"
    by (simp only: s1) (simp add: two_orders_def)
  have s2: "store (delete_orders validator_js
        (store (delete_orders validator_js two_orders ''1'')) ''1'') =
      store (delete_orders validator_js two_orders ''1'')"
    using twice by blast
  have k2: "map ORD_NUM (orders (store (delete_orders validator_js
       (store (delete_orders validator_js two_orders ''1'')) ''1''))) = [2]"
    by (simp only: s2 k1)
  show ?thesis
    using twice r m int_of_string_1 k1 k2 by blast
qed

section \<open>The type of the echoed identifier\<close>

lemma put_params:
  "get_prop (params (fst (validate (put_validators L) (keyed_request ord b)))) ''ORD_NUM'' =
     JStr ord"
  by (simp add: put_validators_def body_chain_def param_chain_def validate_Cons validate_Nil
        chain_shapes params_write_back_Body)
     (simp add: keyed_request_def get_prop_def)

text \<open>
  Claim C10. A successful full replace and a successful deletion echo \<open>ORD_NUM\<close> as the
  string of the path parameter, as the router bound it; a successful creation returns
  \<open>ORD_NUM\<close> as a number, the one the allocator computed: one more than the maximum
  \<open>ORD_NUM\<close> of the table, or 1 for the empty table.
\<close>

theorem ord_num_string_on_put_delete_number_on_post:
  "(status (reply (put_orders L d ord b)) = 200 \<longrightarrow>
      json (reply (put_orders L d ord b)) = MessageOrd ''Order updated'' (JStr ord)) \<and>
   (status (reply (delete_orders L d ord)) = 200 \<longrightarrow>
      json (reply (delete_orders L d ord)) = MessageOrd ''Order deleted'' (JStr ord)) \<and>
   (status (reply (post_orders L d b)) = 201 \<longrightarrow>
      json (reply (post_orders L d b)) =
        MessageOrd ''Order created successfully'' (JNum (max_or_zero d + 1)))"
proof (intro conjI impI)
  assume "status (reply (put_orders L d ord b)) = 200"
  then show "json (reply (put_orders L d ord b)) = MessageOrd ''Order updated'' (JStr ord)"
    by (auto simp: put_orders_def Let_def put_params respond_def
          split: if_splits sum.splits)
next
  assume "status (reply (delete_orders L d ord)) = 200"
  then show "json (reply (delete_orders L d ord)) = MessageOrd ''Order deleted'' (JStr ord)"
    by (auto simp: delete_orders_eq respond_def split: if_splits sum.splits)
next
  assume "status (reply (post_orders L d b)) = 201"
  then have ok: "post_violations L b = []" "reachable d"
    by (simp_all add: post_status_201)
  show "json (reply (post_orders L d b)) =
      MessageOrd ''Order created successfully'' (JNum (max_or_zero d + 1))"
    by (subst post_orders_valid[OF ok]) (simp add: respond_def)
qed

text \<open>The three successes on the table holding order 1: the two keyed routes echo the
  string \<open>1\<close>, the creation returns the number 2.\<close>

lemma scenario_A_put_ok:
  "reply (put_orders validator_js one_order ''1'' scenario_A) =
     \<lparr>status = 200, json = MessageOrd ''Order updated'' (JStr ''1'')\<rparr>"
  by code_simp

lemma scenario_A_post_ok: "status (reply (post_orders validator_js one_order scenario_A)) = 201"
  by code_simp

lemma order_1_delete_ok: "status (reply (delete_orders validator_js one_order ''1'')) = 200"
  by code_simp

lemma one_order_max: "max_or_zero one_order + 1 = 2"
  by (simp add: max_or_zero_def one_order_def)

theorem ord_num_types_order_1:
  "status (reply (put_orders validator_js one_order ''1'' scenario_A)) = 200 \<and>
   json (reply (put_orders validator_js one_order ''1'' scenario_A)) =
     MessageOrd ''Order updated'' (JStr ''1'') \<and>
   status (reply (delete_orders validator_js one_order ''1'')) = 200 \<and>
   json (reply (delete_orders validator_js one_order ''1'')) =
     MessageOrd ''Order deleted'' (JStr ''1'') \<and>
   status (reply (post_orders validator_js one_order scenario_A)) = 201 \<and>
   json (reply (post_orders validator_js one_order scenario_A)) =
     MessageOrd ''Order created successfully'' (JNum 2)"
  using ord_num_string_on_put_delete_number_on_post[of validator_js one_order "''1''" scenario_A]
    scenario_A_put_ok scenario_A_post_ok order_1_delete_ok one_order_max
  by simp

end
